(* ===== verification/Prelude.thy ===== *)
theory Prelude
  imports Complex_Main
begin

text \<open>
  Shared vocabulary of the timething model.  Python raises exceptions; the model
  returns them as values of the sum type \<open>'a result\<close>, \<open>Inl\<close> holding the exception
  that \<^verbatim>\<open>utils.py\<close> (or a library it calls) raises.  \<open>sbind\<close> is Python's
  sequencing of two statements of which the first may raise, and \<open>map_res\<close> is a list
  comprehension \<^verbatim>\<open>[f(x) for x in xs]\<close>: it evaluates \<open>f\<close> left to right and
  propagates the first exception.  The lemmas about both are declared \<open>[simp]\<close> or
  collected in \<open>result_simps\<close>, so that the component proofs can unfold the code.
\<close>

named_theorems result_simps "rewrite rules for exception propagation"

datatype py_error =
    KeyError string
  | TypeError
  | ZeroDivisionError
  | DegenerateAlignment
  | FileNotFoundError
  | IsADirectoryError
  | NotADirectoryError
  | FileExistsError

type_synonym 'a result = "py_error + 'a"

definition sbind :: "'a result \<Rightarrow> ('a \<Rightarrow> 'b result) \<Rightarrow> 'b result" where
  "sbind x f = (case x of Inl e \<Rightarrow> Inl e | Inr v \<Rightarrow> f v)"

fun map_res :: "('a \<Rightarrow> 'b result) \<Rightarrow> 'a list \<Rightarrow> 'b list result" where
  "map_res f [] = Inr []"
| "map_res f (x # xs) = sbind (f x) (\<lambda>y. sbind (map_res f xs) (\<lambda>ys. Inr (y # ys)))"

subsection \<open>Exception propagation\<close>

lemma sbind_Inl [simp, result_simps]: "sbind (Inl e) f = Inl e"
  by (simp add: sbind_def)

lemma sbind_Inr [simp, result_simps]: "sbind (Inr v) f = f v"
  by (simp add: sbind_def)

lemma sbind_eq_Inr [simp]: "(sbind x f = Inr y) = (\<exists>v. x = Inr v \<and> f v = Inr y)"
  by (cases x) simp_all

lemma sbind_eq_Inl: "(sbind x f = Inl e) = (x = Inl e \<or> (\<exists>v. x = Inr v \<and> f v = Inl e))"
  by (cases x) simp_all

lemma sbind_Inr_right [simp, result_simps]: "sbind x Inr = x"
  by (cases x) simp_all

lemma sbind_assoc [result_simps]: "sbind (sbind x f) g = sbind x (\<lambda>v. sbind (f v) g)"
  by (cases x) simp_all

lemma sbind_cong [fundef_cong]:
  "x = y \<Longrightarrow> (\<And>v. y = Inr v \<Longrightarrow> f v = g v) \<Longrightarrow> sbind x f = sbind y g"
  by (cases y) simp_all

subsection \<open>List comprehensions\<close>

lemma map_res_Inr_iff: "(map_res f xs = Inr ys) = list_all2 (\<lambda>x y. f x = Inr y) xs ys"
proof (induction xs arbitrary: ys)
  case Nil
  then show ?case by auto
next
  case (Cons x xs)
  then show ?case by (cases ys) auto
qed

lemma map_res_total [result_simps]:
  "(\<And>x. x \<in> set xs \<Longrightarrow> f x = Inr (g x)) \<Longrightarrow> map_res f xs = Inr (map g xs)"
  by (induction xs) simp_all

lemma map_res_length: "map_res f xs = Inr ys \<Longrightarrow> length ys = length xs"
  by (simp add: map_res_Inr_iff list_all2_lengthD)

lemma map_res_nth:
  "map_res f xs = Inr ys \<Longrightarrow> i < length xs \<Longrightarrow> f (xs ! i) = Inr (ys ! i)"
  by (auto simp: map_res_Inr_iff dest: list_all2_nthD)

lemma map_res_append [result_simps]:
  "map_res f (xs @ zs) = sbind (map_res f xs) (\<lambda>ys. sbind (map_res f zs) (\<lambda>ws. Inr (ys @ ws)))"
  by (induction xs) (simp_all add: sbind_assoc)

lemma map_res_Inl: "map_res f xs = Inl e \<Longrightarrow> \<exists>x\<in>set xs. f x = Inl e"
  by (induction xs) (auto simp: sbind_eq_Inl)

text \<open>
  The exception a comprehension raises is the one of its first failing element: the
  elements before it have been evaluated without raising.
\<close>

lemma map_res_first_error:
  assumes "\<forall>y\<in>set pre. \<exists>v. f y = Inr v" and "f x = Inl e"
  shows "map_res f (pre @ x # post) = Inl e"
  using assms by (induction pre) auto

text \<open>Two comprehensions in a row, the second undoing the first elementwise.\<close>

lemma map_res_inverse:
  assumes "map_res f xs = Inr ys"
    and "\<And>x y. x \<in> set xs \<Longrightarrow> f x = Inr y \<Longrightarrow> g y = Inr (h x)"
  shows "map_res g ys = Inr (map h xs)"
  using assms
proof (induction xs arbitrary: ys)
  case Nil
  then show ?case by simp
next
  case (Cons x xs)
  from Cons.prems(1) obtain y ys' where fx: "f x = Inr y" and rest: "map_res f xs = Inr ys'"
    and ys: "ys = y # ys'"
    by auto
  have "map_res g ys' = Inr (map h xs)"
    using rest Cons.prems(2) by (intro Cons.IH) auto
  moreover have "g y = Inr (h x)"
    using Cons.prems(2) fx by simp
  ultimately show ?case using ys by simp
qed

end
