(* ===== verification/PyValue.thy ===== *)
theory PyValue
  imports Prelude
begin

text \<open>
  The Python values that \<^verbatim>\<open>utils.py\<close> builds and reads: the dictionaries of
  \<^verbatim>\<open>alignment_meta\<close>, what \<^verbatim>\<open>json.load\<close> and \<^verbatim>\<open>yaml.safe_load\<close> return,
  and the dynamically typed fields of \<^verbatim>\<open>align.Alignment\<close>.  Python's \<^verbatim>\<open>int\<close> is
  unbounded (\<open>int\<close>); a \<^verbatim>\<open>float\<close> is modelled by its exact value (\<open>real\<close>), so
  IEEE rounding is outside the model.  A \<^verbatim>\<open>dict\<close> is an association list with
  distinct keys, in insertion order (the order \<^verbatim>\<open>json.dumps\<close> writes); the operations
  are the ones the source applies to such values: subscription by a string key
  (\<^verbatim>\<open>d["start"]\<close>), iteration (\<^verbatim>\<open>for d in xs\<close>), arithmetic operands and truth
  tests.
\<close>

datatype pyval =
    PNone
  | PBool bool
  | PInt int
  | PFloat real
  | PStr string
  | PList "pyval list"
  | PDict "(string \<times> pyval) list"

text \<open>
  \<^verbatim>\<open>v[k]\<close> for a string key: a dict looks the key up and raises \<^verbatim>\<open>KeyError(k)\<close>
  when it is absent; a list or a string raises \<^verbatim>\<open>TypeError\<close> (their indices must be
  integers), and so does every value that is not subscriptable.
\<close>

fun py_getitem :: "pyval \<Rightarrow> string \<Rightarrow> pyval result" where
  "py_getitem (PDict kvs) k = (case map_of kvs k of None \<Rightarrow> Inl (KeyError k) | Some v \<Rightarrow> Inr v)"
| "py_getitem _ k = Inl TypeError"

text \<open>
  \<^verbatim>\<open>iter(v)\<close>: a list yields its elements, a dict its keys, a string its one-character
  strings; numbers, booleans and \<^verbatim>\<open>None\<close> are not iterable.
\<close>

fun py_iter :: "pyval \<Rightarrow> pyval list result" where
  "py_iter (PList xs) = Inr xs"
| "py_iter (PDict kvs) = Inr (map (\<lambda>kv. PStr (fst kv)) kvs)"
| "py_iter (PStr s) = Inr (map (\<lambda>c. PStr [c]) s)"
| "py_iter _ = Inl TypeError"

text \<open>The numeric value of an arithmetic operand (\<^verbatim>\<open>bool\<close> is a subclass of \<^verbatim>\<open>int\<close>).\<close>

fun py_num :: "pyval \<Rightarrow> real option" where
  "py_num (PBool b) = Some (if b then 1 else 0)"
| "py_num (PInt i) = Some (real_of_int i)"
| "py_num (PFloat r) = Some r"
| "py_num _ = None"

text \<open>Python truthiness, as \<^verbatim>\<open>x if x else y\<close> tests it.\<close>

fun py_truthy :: "pyval \<Rightarrow> bool" where
  "py_truthy PNone = False"
| "py_truthy (PBool b) = b"
| "py_truthy (PInt i) = (i \<noteq> 0)"
| "py_truthy (PFloat r) = (r \<noteq> 0)"
| "py_truthy (PStr s) = (s \<noteq> [])"
| "py_truthy (PList xs) = (xs \<noteq> [])"
| "py_truthy (PDict kvs) = (kvs \<noteq> [])"

text \<open>A well-formed dict has distinct keys, as every Python dict has.\<close>

fun py_wf :: "pyval \<Rightarrow> bool" where
  "py_wf (PList xs) = (\<forall>x\<in>set xs. py_wf x)"
| "py_wf (PDict kvs) = (distinct (map fst kvs) \<and> (\<forall>kv\<in>set kvs. py_wf (snd kv)))"
| "py_wf _ = True"

subsection \<open>Subscription\<close>

lemma py_getitem_Inr_iff:
  "(py_getitem v k = Inr x) = (\<exists>kvs. v = PDict kvs \<and> map_of kvs k = Some x)"
  by (cases v) (auto split: option.splits)

lemma py_getitem_dict_Some [simp]:
  "map_of kvs k = Some v \<Longrightarrow> py_getitem (PDict kvs) k = Inr v"
  by simp

lemma py_getitem_dict_None [simp]:
  "map_of kvs k = None \<Longrightarrow> py_getitem (PDict kvs) k = Inl (KeyError k)"
  by simp

lemma py_getitem_Inl:
  "py_getitem v k = Inl e \<Longrightarrow> e = KeyError k \<or> e = TypeError"
  by (cases v) (auto split: option.splits)

end
