(* ===== verification/Alignment.thy ===== *)
theory Alignment
  imports PyValue
begin

text \<open>
  The alignment value type and its rescaling arithmetic.  Both belong to
  \<^verbatim>\<open>timething/align.py\<close>, which is not part of the sources under \<^verbatim>\<open>src/\<close>:
  they are modelled from the specification (sections 3 and 4.1).  \<^verbatim>\<open>Segment\<close> and
  \<^verbatim>\<open>Alignment\<close> are Python dataclasses, which do not check the types of their fields,
  so their scalar fields hold arbitrary Python values; the field order of
  \<open>alignment\<close> is the positional order in which \<^verbatim>\<open>read_alignment\<close> calls the
  constructor.  Field names follow the source except \<open>id'\<close> (\<open>id\<close> is HOL's
  identity) and \<open>seg_end\<close> (\<open>end\<close> is a keyword).
\<close>

record segment =
  label :: pyval
  start :: pyval
  seg_end :: pyval
  score :: pyval

text \<open>A numpy array: its shape and its entries in row-major order.\<close>

record ndarray =
  shape :: "nat list"
  entries :: "real list"

text \<open>\<^verbatim>\<open>np.array([])\<close>, the placeholder a loaded alignment carries.\<close>

definition empty_array :: ndarray where
  "empty_array = \<lparr>shape = [0], entries = []\<rparr>"

record alignment =
  id' :: pyval
  log_probs :: ndarray
  recognised :: pyval
  trellis :: ndarray
  path :: ndarray
  chars_cleaned :: "segment list"
  chars :: "segment list"
  words_cleaned :: "segment list"
  words :: "segment list"
  n_model_frames :: pyval
  n_audio_samples :: pyval
  sampling_rate :: pyval
  partition_score :: pyval

subsection \<open>Rescaling between model frames and seconds\<close>

text \<open>
  The metadata the conversion factor is made of, read as numbers
  (\<open>(m, n, r)\<close> = frames, samples, sampling rate).  A non-numeric field makes the
  arithmetic raise \<^verbatim>\<open>TypeError\<close>; a zero field is the specification's
  \<^verbatim>\<open>DegenerateAlignment\<close>, rejected before any division.
\<close>

definition rescale_params :: "alignment \<Rightarrow> (real \<times> real \<times> real) result" where
  "rescale_params a =
     (case (py_num (n_model_frames a), py_num (n_audio_samples a), py_num (sampling_rate a)) of
        (Some m, Some n, Some r) \<Rightarrow>
          if m = 0 \<or> n = 0 \<or> r = 0 then Inl DegenerateAlignment else Inr (m, n, r)
      | _ \<Rightarrow> Inl TypeError)"

text \<open>\<^verbatim>\<open>Alignment.model_frames_to_seconds\<close>: \<open>n_frames * n_audio_samples / sampling_rate / n_model_frames\<close>.\<close>

definition model_frames_to_seconds :: "alignment \<Rightarrow> pyval \<Rightarrow> pyval result" where
  "model_frames_to_seconds a x =
     sbind (rescale_params a) (\<lambda>(m, n, r).
       case py_num x of
         None \<Rightarrow> Inl TypeError
       | Some f \<Rightarrow> Inr (PFloat (f * n / r / m)))"

text \<open>\<^verbatim>\<open>Alignment.seconds_to_model_frames\<close>: \<open>n_seconds * n_model_frames * sampling_rate / n_audio_samples\<close>.\<close>

definition seconds_to_model_frames :: "alignment \<Rightarrow> pyval \<Rightarrow> pyval result" where
  "seconds_to_model_frames a x =
     sbind (rescale_params a) (\<lambda>(m, n, r).
       case py_num x of
         None \<Rightarrow> Inl TypeError
       | Some s \<Rightarrow> Inr (PFloat (s * m * r / n)))"

text \<open>The specification's derived quantity \<open>seconds_per_model_frame\<close>.\<close>

definition seconds_per_model_frame :: "real \<times> real \<times> real \<Rightarrow> real" where
  "seconds_per_model_frame p = (case p of (m, n, r) \<Rightarrow> n / r / m)"

text \<open>The rescaling reads the metadata only: the segment fields never matter.\<close>

definition same_metadata :: "alignment \<Rightarrow> alignment \<Rightarrow> bool" where
  "same_metadata a b \<longleftrightarrow> n_model_frames a = n_model_frames b
     \<and> n_audio_samples a = n_audio_samples b \<and> sampling_rate a = sampling_rate b"

subsection \<open>An example alignment\<close>

text \<open>
  The example of the specification's section 8 (property 5): ten model frames over
  160000 samples at 16 kHz, so one model frame is one second, and two word segments.
\<close>

definition example_alignment :: alignment where
  "example_alignment =
     \<lparr>id' = PStr ''audio/one.mp3'', log_probs = empty_array, recognised = PStr ''ab'',
      trellis = empty_array, path = empty_array, chars_cleaned = [], chars = [],
      words_cleaned = [],
      words = [\<lparr>label = PStr ''a'', start = PInt 0, seg_end = PInt 2, score = PFloat (9 / 10)\<rparr>,
               \<lparr>label = PStr ''b'', start = PInt 2, seg_end = PInt 5, score = PFloat (8 / 10)\<rparr>],
      n_model_frames = PInt 10, n_audio_samples = PInt 160000, sampling_rate = PInt 16000,
      partition_score = PFloat (1 / 2)\<rparr>"

subsection \<open>Properties of the rescaling\<close>

lemma rescale_params_Inr_iff:
  "(rescale_params a = Inr (m, n, r)) =
     (py_num (n_model_frames a) = Some m \<and> py_num (n_audio_samples a) = Some n
      \<and> py_num (sampling_rate a) = Some r \<and> m \<noteq> 0 \<and> n \<noteq> 0 \<and> r \<noteq> 0)"
  by (auto simp: rescale_params_def split: option.splits)

lemma rescale_params_nonzero:
  "rescale_params a = Inr p \<Longrightarrow> fst p \<noteq> 0 \<and> fst (snd p) \<noteq> 0 \<and> snd (snd p) \<noteq> 0"
  by (cases p) (auto simp: rescale_params_Inr_iff)

lemma rescale_params_degenerate:
  assumes "py_num (n_model_frames a) = Some m" and "py_num (n_audio_samples a) = Some n"
    and "py_num (sampling_rate a) = Some r" and "m = 0 \<or> n = 0 \<or> r = 0"
  shows "rescale_params a = Inl DegenerateAlignment"
  using assms by (simp add: rescale_params_def)

lemma rescale_params_same_metadata:
  "same_metadata a b \<Longrightarrow> rescale_params a = rescale_params b"
  by (simp add: same_metadata_def rescale_params_def)

lemma model_frames_to_seconds_same_metadata:
  "same_metadata a b \<Longrightarrow> model_frames_to_seconds a = model_frames_to_seconds b"
  by (simp add: model_frames_to_seconds_def rescale_params_same_metadata fun_eq_iff)

lemma seconds_to_model_frames_same_metadata:
  "same_metadata a b \<Longrightarrow> seconds_to_model_frames a = seconds_to_model_frames b"
  by (simp add: seconds_to_model_frames_def rescale_params_same_metadata fun_eq_iff)

lemma model_frames_to_seconds_Inr_iff:
  "(model_frames_to_seconds a x = Inr y) =
     (\<exists>p f. rescale_params a = Inr p \<and> py_num x = Some f \<and> y = PFloat (f * seconds_per_model_frame p))"
  by (auto simp: model_frames_to_seconds_def seconds_per_model_frame_def split: option.splits prod.splits)

lemma seconds_to_model_frames_Inr_iff:
  "(seconds_to_model_frames a x = Inr y) =
     (\<exists>p s. rescale_params a = Inr p \<and> py_num x = Some s \<and> y = PFloat (s / seconds_per_model_frame p))"
  by (auto simp: seconds_to_model_frames_def seconds_per_model_frame_def rescale_params_Inr_iff
           split: option.splits prod.splits)

lemma model_frames_to_seconds_Inl:
  "rescale_params a = Inl e \<Longrightarrow> model_frames_to_seconds a x = Inl e"
  by (simp add: model_frames_to_seconds_def)

lemma seconds_to_model_frames_Inl:
  "rescale_params a = Inl e \<Longrightarrow> seconds_to_model_frames a x = Inl e"
  by (simp add: seconds_to_model_frames_def)

lemma seconds_per_model_frame_nonzero:
  "rescale_params a = Inr p \<Longrightarrow> seconds_per_model_frame p \<noteq> 0"
  by (cases p) (auto simp: rescale_params_Inr_iff seconds_per_model_frame_def)

lemma seconds_to_model_frames_rescaled:
  assumes "rescale_params a = Inr p"
  shows "seconds_to_model_frames a (PFloat (f * seconds_per_model_frame p)) = Inr (PFloat f)"
  using assms seconds_per_model_frame_nonzero [OF assms]
  by (auto simp: seconds_to_model_frames_Inr_iff)

lemma model_frames_to_seconds_rescaled:
  assumes "rescale_params a = Inr p"
  shows "model_frames_to_seconds a (PFloat (s / seconds_per_model_frame p)) = Inr (PFloat s)"
  using assms seconds_per_model_frame_nonzero [OF assms]
  by (auto simp: model_frames_to_seconds_Inr_iff)

lemma rescale_params_example: "rescale_params example_alignment = Inr (10, 160000, 16000)"
  by (simp add: rescale_params_def example_alignment_def)

text \<open>Converting frames to seconds and back gives the frames again, exactly.\<close>

lemma frames_seconds_inverse:
  assumes "model_frames_to_seconds a x = Inr y" and "py_num x = Some f"
  shows "seconds_to_model_frames a y = Inr (PFloat f)"
  using assms by (auto simp: model_frames_to_seconds_Inr_iff seconds_to_model_frames_rescaled)

lemma seconds_frames_inverse:
  assumes "seconds_to_model_frames a y = Inr x" and "py_num y = Some s"
  shows "model_frames_to_seconds a x = Inr (PFloat s)"
  using assms by (auto simp: seconds_to_model_frames_Inr_iff model_frames_to_seconds_rescaled)

end
