(* ===== verification/Codec.thy ===== *)
theory Codec
  imports Alignment
begin

text \<open>
  The alignment codec of \<^verbatim>\<open>src/timething/utils.py\<close>: \<^verbatim>\<open>alignment_meta\<close>
  (encode: an alignment to the dictionary written as JSON, frames rescaled to seconds)
  and the part of \<^verbatim>\<open>read_alignment\<close> that rebuilds an alignment from the loaded
  dictionary (decode: seconds rescaled back to frames).  The file access around them
  is in theory \<open>Storage\<close>.  Each Python helper is one definition; exceptions are
  \<open>Inl\<close> values raised in the order in which Python evaluates the expressions.
\<close>

subsection \<open>Encode: \<^verbatim>\<open>alignment_meta\<close>\<close>

text \<open>The inner function \<^verbatim>\<open>rescale\<close> of \<^verbatim>\<open>alignment_meta\<close>: frames to seconds.\<close>

definition meta_rescale :: "alignment \<Rightarrow> pyval \<Rightarrow> pyval result" where
  "meta_rescale a frames = model_frames_to_seconds a frames"

text \<open>One segment as a dict, the body of the comprehension in \<^verbatim>\<open>alignments\<close>.\<close>

definition segment_meta :: "alignment \<Rightarrow> segment \<Rightarrow> pyval result" where
  "segment_meta a s =
     sbind (meta_rescale a (start s)) (\<lambda>st.
     sbind (meta_rescale a (seg_end s)) (\<lambda>en.
     Inr (PDict [(''label'', label s), (''start'', st), (''end'', en), (''score'', score s)])))"

text \<open>The inner function \<^verbatim>\<open>alignments(segments)\<close>: a list comprehension.\<close>

definition alignments :: "alignment \<Rightarrow> segment list \<Rightarrow> pyval result" where
  "alignments a segs = sbind (map_res (segment_meta a) segs) (\<lambda>ds. Inr (PList ds))"

definition alignment_meta :: "alignment \<Rightarrow> pyval result" where
  "alignment_meta a =
     sbind (alignments a (chars a)) (\<lambda>cs.
     sbind (alignments a (chars_cleaned a)) (\<lambda>ccs.
     sbind (alignments a (words a)) (\<lambda>ws.
     sbind (alignments a (words_cleaned a)) (\<lambda>wcs.
     Inr (PDict [(''id'', id' a),
                 (''n_model_frames'', n_model_frames a),
                 (''n_audio_samples'', n_audio_samples a),
                 (''sampling_rate'', sampling_rate a),
                 (''partition_score'', partition_score a),
                 (''recognised'', recognised a),
                 (''chars'', cs),
                 (''chars_cleaned'', ccs),
                 (''words'', ws),
                 (''words_cleaned'', wcs)])))))"

subsection \<open>Decode: the body of \<^verbatim>\<open>read_alignment\<close>\<close>

text \<open>
  The inner function \<^verbatim>\<open>rescale\<close> of \<^verbatim>\<open>read_alignment\<close>: seconds to frames, with
  the metadata of the alignment under construction.
\<close>

definition read_rescale :: "alignment \<Rightarrow> pyval \<Rightarrow> pyval result" where
  "read_rescale a secs = seconds_to_model_frames a secs"

text \<open>
  The inner function \<^verbatim>\<open>dict_to_segment\<close>: the keyword arguments are evaluated in
  the order written, \<^verbatim>\<open>start\<close>, \<^verbatim>\<open>end\<close>, \<^verbatim>\<open>label\<close>, \<^verbatim>\<open>score\<close>.
\<close>

definition dict_to_segment :: "alignment \<Rightarrow> pyval \<Rightarrow> segment result" where
  "dict_to_segment a d =
     sbind (py_getitem d ''start'') (\<lambda>s.
     sbind (read_rescale a s) (\<lambda>st.
     sbind (py_getitem d ''end'') (\<lambda>e.
     sbind (read_rescale a e) (\<lambda>en.
     sbind (py_getitem d ''label'') (\<lambda>l.
     sbind (py_getitem d ''score'') (\<lambda>sc.
     Inr \<lparr>label = l, start = st, seg_end = en, score = sc\<rparr>))))))"

text \<open>\<^verbatim>\<open>[dict_to_segment(d) for d in alignment_dict[k]]\<close>.\<close>

definition segments_from :: "alignment \<Rightarrow> pyval \<Rightarrow> string \<Rightarrow> segment list result" where
  "segments_from a dct k =
     sbind (py_getitem dct k) (\<lambda>v. sbind (py_iter v) (map_res (dict_to_segment a)))"

text \<open>
  The constructor call with the scalar fields read from the dictionary (no type check:
  a dataclass stores what it is given) and empty placeholders, followed by the four
  assignments to the segment fields, in the order of the source.
\<close>

definition alignment_from_dict :: "pyval \<Rightarrow> alignment result" where
  "alignment_from_dict dct =
     sbind (py_getitem dct ''id'') (\<lambda>i.
     sbind (py_getitem dct ''recognised'') (\<lambda>rc.
     sbind (py_getitem dct ''n_model_frames'') (\<lambda>m.
     sbind (py_getitem dct ''n_audio_samples'') (\<lambda>n.
     sbind (py_getitem dct ''sampling_rate'') (\<lambda>r.
     sbind (py_getitem dct ''partition_score'') (\<lambda>ps.
     let a0 = \<lparr>id' = i, log_probs = empty_array, recognised = rc, trellis = empty_array,
               path = empty_array, chars_cleaned = [], chars = [], words_cleaned = [], words = [],
               n_model_frames = m, n_audio_samples = n, sampling_rate = r,
               partition_score = ps\<rparr> in
     sbind (segments_from a0 dct ''chars_cleaned'') (\<lambda>cc.
     let a1 = a0\<lparr>chars_cleaned := cc\<rparr> in
     sbind (segments_from a1 dct ''chars'') (\<lambda>ch.
     let a2 = a1\<lparr>chars := ch\<rparr> in
     sbind (segments_from a2 dct ''words_cleaned'') (\<lambda>wc.
     let a3 = a2\<lparr>words_cleaned := wc\<rparr> in
     sbind (segments_from a3 dct ''words'') (\<lambda>w.
     Inr (a3\<lparr>words := w\<rparr>)))))))))))"

subsection \<open>What a load gives back\<close>

text \<open>
  The specification's loaded alignment (section 3): the raw arrays are empty, the
  segment bounds have been through float arithmetic (a number \<open>x\<close> comes back as
  the float \<open>float(x)\<close>), everything else is as written.
\<close>

definition as_float :: "pyval \<Rightarrow> pyval" where
  "as_float v = (case py_num v of Some f \<Rightarrow> PFloat f | None \<Rightarrow> v)"

definition seg_loaded :: "segment \<Rightarrow> segment" where
  "seg_loaded s = s\<lparr>start := as_float (start s), seg_end := as_float (seg_end s)\<rparr>"

definition loaded_view :: "alignment \<Rightarrow> alignment" where
  "loaded_view a = a\<lparr>log_probs := empty_array, trellis := empty_array, path := empty_array,
     chars_cleaned := map seg_loaded (chars_cleaned a), chars := map seg_loaded (chars a),
     words_cleaned := map seg_loaded (words_cleaned a), words := map seg_loaded (words a)\<rparr>"

subsection \<open>Specification-side vocabulary\<close>

text \<open>
  What the encoder is meant to produce for one segment (specification 4.2): the label
  and score as they are, the bounds scaled by the seconds per model frame.
\<close>

definition scale_num :: "real \<Rightarrow> pyval \<Rightarrow> pyval" where
  "scale_num k v = (case py_num v of Some f \<Rightarrow> PFloat (f * k) | None \<Rightarrow> v)"

definition segment_seconds :: "real \<Rightarrow> segment \<Rightarrow> pyval" where
  "segment_seconds k s = PDict [(''label'', label s), (''start'', scale_num k (start s)),
     (''end'', scale_num k (seg_end s)), (''score'', score s)]"

text \<open>A tier the encoder can rescale: every bound is a number.\<close>

definition numeric_bounds :: "segment list \<Rightarrow> bool" where
  "numeric_bounds segs \<longleftrightarrow> (\<forall>s\<in>set segs. py_num (start s) \<noteq> None \<and> py_num (seg_end s) \<noteq> None)"

text \<open>The scalar fields in the order in which \<^verbatim>\<open>read_alignment\<close> reads them.\<close>

definition scalar_keys :: "string list" where
  "scalar_keys = [''id'', ''recognised'', ''n_model_frames'', ''n_audio_samples'',
     ''sampling_rate'', ''partition_score'']"

text \<open>
  The comprehension of \<^verbatim>\<open>read_alignment\<close> as a function of the three metadata fields
  alone (a proof device: the alignment under construction changes between the four
  comprehensions, its metadata does not).
\<close>

definition segments_of_meta ::
  "pyval \<Rightarrow> pyval \<Rightarrow> pyval \<Rightarrow> pyval \<Rightarrow> string \<Rightarrow> segment list result" where
  "segments_of_meta m n r =
     segments_from \<lparr>id' = PNone, log_probs = empty_array, recognised = PNone,
       trellis = empty_array, path = empty_array, chars_cleaned = [], chars = [],
       words_cleaned = [], words = [], n_model_frames = m, n_audio_samples = n,
       sampling_rate = r, partition_score = PNone\<rparr>"

text \<open>A record with zero model frames and no segments, and what it decodes to.\<close>

definition degenerate_record :: pyval where
  "degenerate_record = PDict [(''id'', PStr ''x''), (''recognised'', PStr ''''),
     (''n_model_frames'', PInt 0), (''n_audio_samples'', PInt 16000),
     (''sampling_rate'', PInt 16000), (''partition_score'', PFloat 0),
     (''chars_cleaned'', PList []), (''chars'', PList []), (''words_cleaned'', PList []),
     (''words'', PList [])]"

definition degenerate_loaded :: alignment where
  "degenerate_loaded = \<lparr>id' = PStr ''x'', log_probs = empty_array, recognised = PStr '''',
     trellis = empty_array, path = empty_array, chars_cleaned = [], chars = [],
     words_cleaned = [], words = [], n_model_frames = PInt 0, n_audio_samples = PInt 16000,
     sampling_rate = PInt 16000, partition_score = PFloat 0\<rparr>"

subsection \<open>Encoding, lemma by lemma\<close>

lemma segment_meta_Inr_iff:
  "(segment_meta a s = Inr d) =
     (\<exists>p f g. rescale_params a = Inr p \<and> py_num (start s) = Some f \<and> py_num (seg_end s) = Some g
        \<and> d = PDict [(''label'', label s), (''start'', PFloat (f * seconds_per_model_frame p)),
                     (''end'', PFloat (g * seconds_per_model_frame p)), (''score'', score s)])"
  by (auto simp: segment_meta_def meta_rescale_def model_frames_to_seconds_Inr_iff)

lemma segment_meta_seconds:
  assumes "rescale_params a = Inr p" and "py_num (start s) \<noteq> None" and "py_num (seg_end s) \<noteq> None"
  shows "segment_meta a s = Inr (segment_seconds (seconds_per_model_frame p) s)"
  using assms by (auto simp: segment_meta_Inr_iff segment_seconds_def scale_num_def)

lemma alignments_Inr:
  assumes "rescale_params a = Inr p" and "numeric_bounds segs"
  shows "alignments a segs = Inr (PList (map (segment_seconds (seconds_per_model_frame p)) segs))"
  using assms by (simp add: alignments_def map_res_total segment_meta_seconds numeric_bounds_def)

lemma alignments_Nil [simp]: "alignments a [] = Inr (PList [])"
  by (simp add: alignments_def)

lemma alignments_Inl:
  "rescale_params a = Inl e \<Longrightarrow> segs \<noteq> [] \<Longrightarrow> alignments a segs = Inl e"
  by (cases segs) (simp_all add: alignments_def segment_meta_def meta_rescale_def
      model_frames_to_seconds_Inl)

lemma alignment_meta_Inr:
  assumes "rescale_params a = Inr p" and "numeric_bounds (chars a)"
    and "numeric_bounds (chars_cleaned a)" and "numeric_bounds (words a)"
    and "numeric_bounds (words_cleaned a)"
  shows "alignment_meta a = Inr (PDict [(''id'', id' a), (''n_model_frames'', n_model_frames a),
     (''n_audio_samples'', n_audio_samples a), (''sampling_rate'', sampling_rate a),
     (''partition_score'', partition_score a), (''recognised'', recognised a),
     (''chars'', PList (map (segment_seconds (seconds_per_model_frame p)) (chars a))),
     (''chars_cleaned'', PList (map (segment_seconds (seconds_per_model_frame p)) (chars_cleaned a))),
     (''words'', PList (map (segment_seconds (seconds_per_model_frame p)) (words a))),
     (''words_cleaned'', PList (map (segment_seconds (seconds_per_model_frame p)) (words_cleaned a)))])"
  using assms by (simp add: alignment_meta_def alignments_Inr)

lemma numeric_bounds_example:
  "numeric_bounds (chars example_alignment) \<and> numeric_bounds (chars_cleaned example_alignment)
   \<and> numeric_bounds (words example_alignment) \<and> numeric_bounds (words_cleaned example_alignment)"
  by (simp add: numeric_bounds_def example_alignment_def)

subsection \<open>Decoding, lemma by lemma\<close>

lemma dict_to_segment_same_metadata:
  "same_metadata a b \<Longrightarrow> dict_to_segment a = dict_to_segment b"
  by (simp add: dict_to_segment_def read_rescale_def fun_eq_iff
      seconds_to_model_frames_same_metadata [of a b])

lemma segments_from_meta:
  "segments_from a = segments_of_meta (n_model_frames a) (n_audio_samples a) (sampling_rate a)"
  unfolding segments_of_meta_def segments_from_def
  by (subst dict_to_segment_same_metadata [where b = a]) (simp_all add: same_metadata_def)

text \<open>Everything a successful decode says about its result.\<close>

lemma alignment_from_dict_Inr:
  assumes "alignment_from_dict d = Inr a"
  shows "py_getitem d ''id'' = Inr (id' a) \<and> py_getitem d ''recognised'' = Inr (recognised a)
    \<and> py_getitem d ''n_model_frames'' = Inr (n_model_frames a)
    \<and> py_getitem d ''n_audio_samples'' = Inr (n_audio_samples a)
    \<and> py_getitem d ''sampling_rate'' = Inr (sampling_rate a)
    \<and> py_getitem d ''partition_score'' = Inr (partition_score a)
    \<and> log_probs a = empty_array \<and> trellis a = empty_array \<and> path a = empty_array
    \<and> segments_from a d ''chars_cleaned'' = Inr (chars_cleaned a)
    \<and> segments_from a d ''chars'' = Inr (chars a)
    \<and> segments_from a d ''words_cleaned'' = Inr (words_cleaned a)
    \<and> segments_from a d ''words'' = Inr (words a)"
  using assms by (auto simp: alignment_from_dict_def Let_def segments_from_meta)

lemma dict_to_segment_Inl:
  "rescale_params a = Inl e \<Longrightarrow> dict_to_segment a x \<noteq> Inr s"
  by (auto simp: dict_to_segment_def read_rescale_def seconds_to_model_frames_Inl)

lemma segments_from_Inl:
  assumes "segments_from a d k = Inr segs" and "rescale_params a = Inl e"
  shows "segs = []"
proof (cases segs)
  case (Cons s rest)
  with assms(1) obtain xs where "map_res (dict_to_segment a) xs = Inr (s # rest)"
    by (auto simp: segments_from_def)
  then obtain x where "dict_to_segment a x = Inr s"
    by (cases xs) auto
  with assms(2) show ?thesis by (simp add: dict_to_segment_Inl)
qed simp

subsection \<open>Decode after encode\<close>

lemma segment_roundtrip:
  assumes "segment_meta a s = Inr d" and "same_metadata a b"
  shows "dict_to_segment b d = Inr (seg_loaded s)"
proof -
  from assms(1) obtain p f g where p: "rescale_params a = Inr p"
    and f: "py_num (start s) = Some f" and g: "py_num (seg_end s) = Some g"
    and d: "d = PDict [(''label'', label s), (''start'', PFloat (f * seconds_per_model_frame p)),
                     (''end'', PFloat (g * seconds_per_model_frame p)), (''score'', score s)]"
    by (auto simp: segment_meta_Inr_iff)
  have b: "seconds_to_model_frames b = seconds_to_model_frames a"
    using assms(2) by (simp add: seconds_to_model_frames_same_metadata)
  show ?thesis
    using p f g by (simp add: d b dict_to_segment_def read_rescale_def
        seconds_to_model_frames_rescaled seg_loaded_def as_float_def)
qed

lemma alignments_roundtrip:
  assumes "alignments a segs = Inr v" and "same_metadata a b"
  shows "sbind (py_iter v) (map_res (dict_to_segment b)) = Inr (map seg_loaded segs)"
proof -
  from assms(1) obtain ds where ds: "map_res (segment_meta a) segs = Inr ds" and v: "v = PList ds"
    by (auto simp: alignments_def)
  have "map_res (dict_to_segment b) ds = Inr (map seg_loaded segs)"
    using ds by (rule map_res_inverse) (use assms(2) segment_roundtrip in blast)
  then show ?thesis by (simp add: v)
qed

text \<open>Decoding what was encoded: the lemma behind every round trip.\<close>

lemma alignment_from_dict_meta:
  assumes "alignment_meta a = Inr d"
  shows "alignment_from_dict d = Inr (loaded_view a)"
proof -
  from assms obtain cs ccs ws wcs where
    cs: "alignments a (chars a) = Inr cs" and ccs: "alignments a (chars_cleaned a) = Inr ccs"
    and ws: "alignments a (words a) = Inr ws" and wcs: "alignments a (words_cleaned a) = Inr wcs"
    and d: "d = PDict [(''id'', id' a), (''n_model_frames'', n_model_frames a),
                 (''n_audio_samples'', n_audio_samples a), (''sampling_rate'', sampling_rate a),
                 (''partition_score'', partition_score a), (''recognised'', recognised a),
                 (''chars'', cs), (''chars_cleaned'', ccs), (''words'', ws), (''words_cleaned'', wcs)]"
    by (auto simp: alignment_meta_def)
  have same: "same_metadata a b" if "n_model_frames b = n_model_frames a"
    "n_audio_samples b = n_audio_samples a" "sampling_rate b = sampling_rate a" for b
    using that by (simp add: same_metadata_def)
  show ?thesis
    by (simp add: alignment_from_dict_def segments_from_def d loaded_view_def
        alignments_roundtrip [OF cs same] alignments_roundtrip [OF ccs same]
        alignments_roundtrip [OF ws same] alignments_roundtrip [OF wcs same])
qed

text \<open>
  C1. Codec round trip (specification 8.1): whenever \<^verbatim>\<open>alignment_meta\<close> encodes an
  alignment, decoding the dictionary it produced gives back the alignment with the
  same id, transcript, metadata and score, every segment's label and score unchanged,
  every bound equal as a number (now a float), and the raw arrays empty.
\<close>

theorem codec_roundtrip:
  assumes "alignment_meta a = Inr d"
  shows "alignment_from_dict d = Inr (loaded_view a)"
  using assms by (rule alignment_from_dict_meta)

theorem codec_roundtrip_witness:
  "\<exists>d. alignment_meta example_alignment = Inr d
     \<and> alignment_from_dict d = Inr (loaded_view example_alignment)"
proof -
  obtain d where d: "alignment_meta example_alignment = Inr d"
    using alignment_meta_Inr [OF rescale_params_example] numeric_bounds_example by blast
  show ?thesis
    using d codec_roundtrip [OF d] by blast
qed

subsection \<open>Rescaling through the two closures\<close>

text \<open>
  C3. Rescaling inverse (specification 4.1, property 8.2): the \<^verbatim>\<open>rescale\<close> of
  \<^verbatim>\<open>read_alignment\<close> undoes the \<^verbatim>\<open>rescale\<close> of \<^verbatim>\<open>alignment_meta\<close> exactly, for
  any frame count and any alignment whose metadata is numeric and non-zero (which the
  success of the first conversion says); the result is the frame count as a float.
\<close>

theorem rescale_roundtrip:
  assumes "meta_rescale a x = Inr y" and "py_num x = Some f"
  shows "read_rescale a y = Inr (PFloat f)"
  using assms by (simp add: meta_rescale_def read_rescale_def frames_seconds_inverse)

theorem rescale_roundtrip_witness:
  "meta_rescale example_alignment (PInt 2) = Inr (PFloat 2)
   \<and> read_rescale example_alignment (PFloat 2) = Inr (PFloat 2)"
proof -
  have m: "meta_rescale example_alignment (PInt 2) = Inr (PFloat 2)"
    by (simp add: meta_rescale_def model_frames_to_seconds_def rescale_params_example)
  show ?thesis
    using m rescale_roundtrip [OF m, of 2] by simp
qed

text \<open>
  C21. The other direction: seconds read back to frames and written out again give
  the same number of seconds.
\<close>

theorem rescale_roundtrip_seconds:
  assumes "read_rescale a y = Inr x" and "py_num y = Some s"
  shows "meta_rescale a x = Inr (PFloat s)"
  using assms by (simp add: meta_rescale_def read_rescale_def seconds_frames_inverse)

theorem rescale_roundtrip_seconds_witness:
  "read_rescale example_alignment (PFloat (5 / 2)) = Inr (PFloat (5 / 2))
   \<and> meta_rescale example_alignment (PFloat (5 / 2)) = Inr (PFloat (5 / 2))"
proof -
  have r: "read_rescale example_alignment (PFloat (5 / 2)) = Inr (PFloat (5 / 2))"
    by (simp add: read_rescale_def seconds_to_model_frames_def rescale_params_example)
  show ?thesis
    using r rescale_roundtrip_seconds [OF r, of "5 / 2"] by simp
qed

subsection \<open>Degenerate metadata\<close>

text \<open>
  C4. Degenerate rejection (specification 4.1, property 8.3): an alignment with zero
  model frames, zero samples or a zero sampling rate and at least one segment in any
  tier is not encoded: \<^verbatim>\<open>alignment_meta\<close> raises \<^verbatim>\<open>DegenerateAlignment\<close> and
  produces no seconds value at all.
\<close>

theorem encode_degenerate_rejected:
  assumes "py_num (n_model_frames a) = Some m" and "py_num (n_audio_samples a) = Some n"
    and "py_num (sampling_rate a) = Some r" and "m = 0 \<or> n = 0 \<or> r = 0"
    and "chars a @ chars_cleaned a @ words a @ words_cleaned a \<noteq> []"
  shows "alignment_meta a = Inl DegenerateAlignment"
proof -
  have e: "rescale_params a = Inl DegenerateAlignment"
    using assms(1-4) by (rule rescale_params_degenerate)
  show ?thesis
    using assms(5) alignments_Inl [OF e]
    by (cases "chars a = []"; cases "chars_cleaned a = []"; cases "words a = []")
       (simp_all add: alignment_meta_def)
qed

theorem encode_degenerate_rejected_witness:
  "py_num (n_model_frames (example_alignment\<lparr>n_model_frames := PInt 0\<rparr>)) = Some 0
   \<and> alignment_meta (example_alignment\<lparr>n_model_frames := PInt 0\<rparr>) = Inl DegenerateAlignment"
  using encode_degenerate_rejected [of "example_alignment\<lparr>n_model_frames := PInt 0\<rparr>" 0 160000 16000]
  by (simp add: example_alignment_def)

text \<open>
  C11. The rejection depends on the segments, not on the metadata: an alignment whose
  four tiers are empty is encoded whatever its metadata, degenerate or not a number,
  because \<^verbatim>\<open>alignment_meta\<close> has no check of its own and rescales only inside the
  comprehensions.  The specification (property 8.3) says such an alignment fails with
  \<^verbatim>\<open>DegenerateAlignment\<close>.
\<close>

theorem encode_degenerate_accepted:
  assumes "chars a = []" and "chars_cleaned a = []" and "words a = []" and "words_cleaned a = []"
  shows "alignment_meta a = Inr (PDict [(''id'', id' a), (''n_model_frames'', n_model_frames a),
     (''n_audio_samples'', n_audio_samples a), (''sampling_rate'', sampling_rate a),
     (''partition_score'', partition_score a), (''recognised'', recognised a),
     (''chars'', PList []), (''chars_cleaned'', PList []), (''words'', PList []),
     (''words_cleaned'', PList [])])"
  using assms by (simp add: alignment_meta_def)

theorem encode_degenerate_accepted_witness:
  "rescale_params (example_alignment\<lparr>n_model_frames := PInt 0, words := []\<rparr>) = Inl DegenerateAlignment
   \<and> alignment_meta (example_alignment\<lparr>n_model_frames := PInt 0, words := []\<rparr>) =
     Inr (PDict [(''id'', PStr ''audio/one.mp3''), (''n_model_frames'', PInt 0),
       (''n_audio_samples'', PInt 160000), (''sampling_rate'', PInt 16000),
       (''partition_score'', PFloat (1 / 2)), (''recognised'', PStr ''ab''),
       (''chars'', PList []), (''chars_cleaned'', PList []), (''words'', PList []),
       (''words_cleaned'', PList [])])"
  using encode_degenerate_accepted [of "example_alignment\<lparr>n_model_frames := PInt 0, words := []\<rparr>"]
  by (simp add: example_alignment_def rescale_params_def)

text \<open>
  C10. A decode never yields segments under degenerate metadata: if
  \<^verbatim>\<open>read_alignment\<close>'s reconstruction succeeds while the metadata would make rescaling
  fail, then every tier of the result is empty.
\<close>

theorem decode_degenerate_no_segments:
  assumes "alignment_from_dict d = Inr a" and "rescale_params a = Inl e"
  shows "chars a = [] \<and> chars_cleaned a = [] \<and> words a = [] \<and> words_cleaned a = []"
  using alignment_from_dict_Inr [OF assms(1)] segments_from_Inl assms(2) by blast

theorem decode_degenerate_no_segments_witness:
  "alignment_from_dict degenerate_record = Inr degenerate_loaded
   \<and> rescale_params degenerate_loaded = Inl DegenerateAlignment
   \<and> chars_cleaned degenerate_loaded = []"
proof -
  have d: "alignment_from_dict degenerate_record = Inr degenerate_loaded"
    by (simp add: alignment_from_dict_def segments_from_def degenerate_record_def
        degenerate_loaded_def)
  have e: "rescale_params degenerate_loaded = Inl DegenerateAlignment"
    by (simp add: rescale_params_def degenerate_loaded_def)
  show ?thesis
    using d e decode_degenerate_no_segments [OF d e] by simp
qed

subsection \<open>Malformed records\<close>

text \<open>
  C5. Missing field (specification 4.3, property 8.4): a record that lacks one of the
  scalar fields fails to decode with \<^verbatim>\<open>KeyError\<close> naming the first missing one in
  the order \<^verbatim>\<open>read_alignment\<close> reads them; no default is substituted.
\<close>

theorem decode_first_missing_key:
  assumes "i < length scalar_keys"
    and "\<forall>k\<in>set (take i scalar_keys). map_of kvs k \<noteq> None"
    and "map_of kvs (scalar_keys ! i) = None"
  shows "alignment_from_dict (PDict kvs) = Inl (KeyError (scalar_keys ! i))"
proof -
  have "i = 0 \<or> i = 1 \<or> i = 2 \<or> i = 3 \<or> i = 4 \<or> i = 5"
    using assms(1) by (auto simp: scalar_keys_def)
  then show ?thesis
    using assms(2,3)
    by (elim disjE)
       (auto simp: alignment_from_dict_def scalar_keys_def numeral_eq_Suc take_Suc_conv_app_nth)
qed

theorem decode_first_missing_key_witness:
  "alignment_from_dict (PDict [(''id'', PStr ''audio/one.mp3''), (''recognised'', PStr ''ab''),
       (''n_model_frames'', PInt 10), (''n_audio_samples'', PInt 160000),
       (''partition_score'', PFloat 0), (''chars'', PList [])])
   = Inl (KeyError ''sampling_rate'')"
  using decode_first_missing_key [of 4 "[(''id'', PStr ''audio/one.mp3''), (''recognised'', PStr ''ab''),
       (''n_model_frames'', PInt 10), (''n_audio_samples'', PInt 160000),
       (''partition_score'', PFloat 0), (''chars'', PList [])]"]
  by (simp add: scalar_keys_def)

text \<open>
  C9. A decoded alignment is a loaded alignment (specification 3 and 4.3): its raw
  arrays are the empty placeholders and each scalar field is the dictionary's value
  under its key, copied without conversion or default.
\<close>

theorem decode_loaded_state:
  assumes "alignment_from_dict d = Inr a"
  shows "log_probs a = empty_array \<and> trellis a = empty_array \<and> path a = empty_array
    \<and> py_getitem d ''id'' = Inr (id' a) \<and> py_getitem d ''recognised'' = Inr (recognised a)
    \<and> py_getitem d ''n_model_frames'' = Inr (n_model_frames a)
    \<and> py_getitem d ''n_audio_samples'' = Inr (n_audio_samples a)
    \<and> py_getitem d ''sampling_rate'' = Inr (sampling_rate a)
    \<and> py_getitem d ''partition_score'' = Inr (partition_score a)"
  using alignment_from_dict_Inr [OF assms] by blast

theorem decode_loaded_state_witness:
  "alignment_from_dict degenerate_record = Inr degenerate_loaded
   \<and> log_probs degenerate_loaded = empty_array
   \<and> py_getitem degenerate_record ''sampling_rate'' = Inr (PInt 16000)"
proof -
  have d: "alignment_from_dict degenerate_record = Inr degenerate_loaded"
    by (simp add: alignment_from_dict_def segments_from_def degenerate_record_def
        degenerate_loaded_def)
  show ?thesis
    using d decode_loaded_state [OF d] by (simp add: degenerate_loaded_def)
qed

subsection \<open>The shape of an encoded tier\<close>

text \<open>
  C6. Order preservation (specification 4.2, property 8.5): \<^verbatim>\<open>alignments\<close> turns a
  tier into the list of the segments' dictionaries in the same order, one per segment,
  each with label and score unchanged and bounds multiplied by the seconds per model
  frame; equal frame bounds give equal seconds, so adjacent segments stay adjacent.
\<close>

theorem alignments_order:
  assumes "rescale_params a = Inr p" and "numeric_bounds segs"
  shows "alignments a segs = Inr (PList (map (segment_seconds (seconds_per_model_frame p)) segs))"
  using assms by (rule alignments_Inr)

theorem alignments_order_witness:
  "alignments example_alignment (words example_alignment) = Inr (PList [
     PDict [(''label'', PStr ''a''), (''start'', PFloat 0), (''end'', PFloat 2), (''score'', PFloat (9 / 10))],
     PDict [(''label'', PStr ''b''), (''start'', PFloat 2), (''end'', PFloat 5), (''score'', PFloat (8 / 10))]])"
  using alignments_order [OF rescale_params_example, of "words example_alignment"] numeric_bounds_example
  by (simp add: example_alignment_def segment_seconds_def scale_num_def seconds_per_model_frame_def)


text \<open>
  C8. Encode is total on non-degenerate alignments (specification 4.2): with numeric,
  non-zero metadata and numeric segment bounds, \<^verbatim>\<open>alignment_meta\<close> returns a record
  and raises nothing, and the record holds the metadata verbatim.
\<close>

theorem encode_total:
  assumes "rescale_params a = Inr p" and "numeric_bounds (chars a)"
    and "numeric_bounds (chars_cleaned a)" and "numeric_bounds (words a)"
    and "numeric_bounds (words_cleaned a)"
  shows "\<exists>cs ccs ws wcs. alignment_meta a = Inr (PDict [(''id'', id' a),
     (''n_model_frames'', n_model_frames a), (''n_audio_samples'', n_audio_samples a),
     (''sampling_rate'', sampling_rate a), (''partition_score'', partition_score a),
     (''recognised'', recognised a), (''chars'', cs), (''chars_cleaned'', ccs),
     (''words'', ws), (''words_cleaned'', wcs)])"
  using assms by (simp add: alignment_meta_def alignments_Inr)

theorem encode_total_witness:
  "\<exists>cs ccs ws wcs. alignment_meta example_alignment = Inr (PDict [(''id'', PStr ''audio/one.mp3''),
     (''n_model_frames'', PInt 10), (''n_audio_samples'', PInt 160000),
     (''sampling_rate'', PInt 16000), (''partition_score'', PFloat (1 / 2)),
     (''recognised'', PStr ''ab''), (''chars'', cs), (''chars_cleaned'', ccs),
     (''words'', ws), (''words_cleaned'', wcs)])"
  using encode_total [OF rescale_params_example] numeric_bounds_example
  by (simp add: example_alignment_def)

end
