(* ===== verification/Paths.thy ===== *)
theory Paths
  imports Prelude
begin

text \<open>
  Where \<^verbatim>\<open>write_alignment\<close> and \<^verbatim>\<open>read_alignment\<close> put a record:
  \<^verbatim>\<open>alignment_filename(path, id)\<close> of \<^verbatim>\<open>src/timething/utils.py\<close>, which joins the
  id onto the output directory with pathlib's \<^verbatim>\<open>/\<close> and appends \<^verbatim>\<open>.json\<close> to the
  last component.  The pathlib operations it uses are modelled as POSIX
  \<^verbatim>\<open>PurePosixPath\<close> defines them: a path is its root (empty, one slash or two, as
  \<^verbatim>\<open>posixpath.splitroot\<close> returns it) and its tail of components; a string is
  parsed by splitting at \<^verbatim>\<open>/\<close> and dropping empty and \<^verbatim>\<open>.\<close> components;
  joining an absolute string replaces the whole path; \<^verbatim>\<open>parent\<close> drops the last
  component and \<^verbatim>\<open>name\<close> is the last component.
\<close>

text \<open>A \<^verbatim>\<open>PurePosixPath\<close>: its \<^verbatim>\<open>root\<close> and its \<^verbatim>\<open>_tail\<close> (the drive is always empty).\<close>

record ppath =
  path_root :: string
  path_tail :: "string list"

text \<open>\<^verbatim>\<open>sep.join(ws)\<close> and \<^verbatim>\<open>s.split(c)\<close>.\<close>

fun str_join :: "string \<Rightarrow> string list \<Rightarrow> string" where
  "str_join sep [] = []"
| "str_join sep [w] = w"
| "str_join sep (w # ws) = w @ sep @ str_join sep ws"

fun str_split :: "char \<Rightarrow> string \<Rightarrow> string list" where
  "str_split c [] = [[]]"
| "str_split c (x # xs) =
     (if x = c then [] # str_split c xs
      else (case str_split c xs of w # ws \<Rightarrow> (x # w) # ws | [] \<Rightarrow> [[x]]))"

text \<open>\<^verbatim>\<open>posixpath.splitroot\<close>: exactly two leading slashes are kept as a root of their own.\<close>

definition split_root :: "string \<Rightarrow> string \<times> string" where
  "split_root p =
     (if take 1 p \<noteq> ''/'' then ('''', p)
      else if take 1 (drop 1 p) \<noteq> ''/'' \<or> take 1 (drop 2 p) = ''/'' then (''/'', drop 1 p)
      else (''//'', drop 2 p))"

text \<open>\<^verbatim>\<open>PurePosixPath(s)\<close>, i.e. \<^verbatim>\<open>_parse_path\<close>.\<close>

definition path_of_string :: "string \<Rightarrow> ppath" where
  "path_of_string s =
     (case split_root s of (r, rel) \<Rightarrow>
        \<lparr>path_root = r, path_tail = filter (\<lambda>x. x \<noteq> [] \<and> x \<noteq> ''.'') (str_split (CHR ''/'') rel)\<rparr>)"


text \<open>\<^verbatim>\<open>p / s\<close> for a string \<open>s\<close>: \<^verbatim>\<open>os.path.join\<close> of the two, parsed.\<close>

definition path_join :: "ppath \<Rightarrow> string \<Rightarrow> ppath" where
  "path_join p s = (let q = path_of_string s in if path_root q \<noteq> [] then q else p\<lparr>path_tail := path_tail p @ path_tail q\<rparr>)"

text \<open>\<^verbatim>\<open>p.parent\<close> and \<^verbatim>\<open>p.name\<close>.\<close>

definition path_parent :: "ppath \<Rightarrow> ppath" where
  "path_parent p = (if path_tail p = [] then p else p\<lparr>path_tail := butlast (path_tail p)\<rparr>)"

definition path_name :: "ppath \<Rightarrow> string" where
  "path_name p = (if path_tail p = [] then [] else last (path_tail p))"

text \<open>\<^verbatim>\<open>alignment_filename\<close>: from \<^verbatim>\<open>audio/one.mp3\<close> to \<^verbatim>\<open>audio/one.mp3.json\<close>.\<close>

definition alignment_filename :: "ppath \<Rightarrow> string \<Rightarrow> ppath" where
  "alignment_filename path i =
     (let filename = path_join path i in path_join (path_parent filename) (path_name filename @ ''.json''))"

text \<open>
  An id in canonical form: a relative path whose components are all non-empty and
  none is \<^verbatim>\<open>.\<close>.  A well-formed path is one that \<open>path_of_string\<close> can return.
\<close>

definition canonical_id :: "string \<Rightarrow> bool" where
  "canonical_id s \<longleftrightarrow> (\<forall>w\<in>set (str_split (CHR ''/'') s). w \<noteq> [] \<and> w \<noteq> ''.'')"

definition wf_path :: "ppath \<Rightarrow> bool" where
  "wf_path p \<longleftrightarrow> path_root p \<in> {[], ''/'', ''//''}
     \<and> (\<forall>w\<in>set (path_tail p). w \<noteq> [] \<and> w \<noteq> ''.'' \<and> CHR ''/'' \<notin> set w)"

subsection \<open>Splitting and joining\<close>

lemma str_split_nonempty [simp]: "str_split c s \<noteq> []"
  by (induction s) (auto split: list.splits)

lemma str_split_no_sep: "w \<in> set (str_split c s) \<Longrightarrow> c \<notin> set w"
proof (induction c s arbitrary: w rule: str_split.induct)
  case (1 c)
  then show ?case by simp
next
  case (2 c x xs)
  then show ?case by (auto split: if_splits list.splits)
qed

lemma str_join_Cons: "str_join sep (w # ws) = (if ws = [] then w else w @ sep @ str_join sep ws)"
  by (cases ws) simp_all

lemma join_split: "str_join [c] (str_split c s) = s"
proof (induction s)
  case Nil
  then show ?case by simp
next
  case (Cons x xs)
  show ?case
  proof (cases "x = c")
    case True
    with Cons show ?thesis by (simp add: str_join_Cons)
  next
    case False
    obtain w ws where split: "str_split c xs = w # ws"
      using str_split_nonempty by (cases "str_split c xs") auto
    with Cons False show ?thesis by (simp add: str_join_Cons split: if_splits)
  qed
qed

lemma split_join:
  "ws \<noteq> [] \<Longrightarrow> \<forall>w\<in>set ws. c \<notin> set w \<Longrightarrow> str_split c (str_join [c] ws) = ws"
proof (induction ws)
  case Nil
  then show ?case by simp
next
  case (Cons w ws)
  have word: "str_split c (w @ rest) = (case str_split c rest of v # vs \<Rightarrow> (w @ v) # vs | [] \<Rightarrow> [w])"
    if "c \<notin> set w" for rest
    using that by (induction w) (auto split: list.splits)
  show ?case
  proof (cases "ws = []")
    case True
    with Cons.prems word [of "[]"] show ?thesis by simp
  next
    case False
    with Cons have "str_split c (str_join [c] ws) = ws" by simp
    with Cons.prems False word [of "c # str_join [c] ws"] show ?thesis
      by (simp add: str_join_Cons)
  qed
qed

lemma canonical_not_absolute:
  assumes "canonical_id s"
  shows "take 1 s \<noteq> ''/''"
proof
  assume "take 1 s = ''/''"
  then obtain t where "s = CHR ''/'' # t" by (cases s) auto
  then have "[] \<in> set (str_split (CHR ''/'') s)" by simp
  with assms show False by (auto simp: canonical_id_def)
qed

lemma path_of_string_canonical:
  assumes "canonical_id s"
  shows "path_of_string s = \<lparr>path_root = [], path_tail = str_split (CHR ''/'') s\<rparr>"
proof -
  have h: "take 1 s \<noteq> ''/''" by (rule canonical_not_absolute [OF assms])
  have f: "filter (\<lambda>x. x \<noteq> [] \<and> x \<noteq> ''.'') (str_split (CHR ''/'') s) = str_split (CHR ''/'') s"
    using assms by (simp add: canonical_id_def filter_id_conv)
  show ?thesis
    using h f by (simp add: path_of_string_def split_root_def)
qed

lemma path_join_name:
  assumes "CHR ''/'' \<notin> set n" and "n \<noteq> []" and "n \<noteq> ''.''"
  shows "path_join p n = p\<lparr>path_tail := path_tail p @ [n]\<rparr>"
proof -
  have "take 1 n \<noteq> ''/''" using assms(1) by (cases n) auto
  moreover have "str_split (CHR ''/'') n = [n]"
    using split_join [of "[n]" "CHR ''/''"] assms(1) by simp
  ultimately show ?thesis
    using assms by (simp add: path_join_def path_of_string_def split_root_def)
qed

lemma json_name_ok: "CHR ''/'' \<notin> set n \<Longrightarrow> CHR ''/'' \<notin> set (n @ ''.json'') \<and> n @ ''.json'' \<noteq> [] \<and> n @ ''.json'' \<noteq> ''.''"
  by (cases n) auto

lemma alignment_filename_canonical:
  assumes "canonical_id s"
  shows "alignment_filename p s =
    p\<lparr>path_tail := path_tail p @ butlast (str_split (CHR ''/'') s)
                    @ [last (str_split (CHR ''/'') s) @ ''.json'']\<rparr>"
proof -
  let ?W = "str_split (CHR ''/'') s"
  have j: "path_join p s = p\<lparr>path_tail := path_tail p @ ?W\<rparr>"
    by (simp add: path_join_def path_of_string_canonical assms)
  have nosep: "CHR ''/'' \<notin> set (last ?W)"
    using str_split_no_sep last_in_set str_split_nonempty by metis
  show ?thesis
    using json_name_ok [OF nosep]
    by (simp add: alignment_filename_def j path_parent_def path_name_def path_join_name
        butlast_append)
qed

subsection \<open>Well-formed paths\<close>

lemma split_root_cases:
  "split_root s = (r, rel) \<Longrightarrow> r \<in> {[], ''/'', ''//''}"
  by (auto simp: split_root_def split: if_splits)

lemma wf_path_of_string: "wf_path (path_of_string s)"
  by (auto simp: wf_path_def path_of_string_def split_root_cases str_split_no_sep
      split: prod.splits dest: split_root_cases)

lemma wf_path_join: "wf_path p \<Longrightarrow> wf_path (path_join p s)"
  using wf_path_of_string [of s] by (auto simp: path_join_def wf_path_def Let_def)

lemma wf_path_parent: "wf_path p \<Longrightarrow> wf_path (path_parent p)"
  by (auto simp: path_parent_def wf_path_def dest: in_set_butlastD)

lemma path_name_ok:
  "wf_path p \<Longrightarrow> CHR ''/'' \<notin> set (path_name p)"
  by (auto simp: path_name_def wf_path_def)

lemma alignment_filename_split:
  assumes "wf_path p"
  shows "alignment_filename p i =
    (path_parent (path_join p i))\<lparr>path_tail := path_tail (path_parent (path_join p i))
       @ [path_name (path_join p i) @ ''.json'']\<rparr>"
proof -
  have "CHR ''/'' \<notin> set (path_name (path_join p i))"
    using assms by (intro path_name_ok wf_path_join)
  from json_name_ok [OF this] show ?thesis
    by (simp add: alignment_filename_def path_join_name Let_def)
qed

lemma alignment_filename_parent:
  "wf_path p \<Longrightarrow> path_parent (alignment_filename p i) = path_parent (path_join p i)"
  by (simp add: alignment_filename_split path_parent_def)

lemma alignment_filename_tail:
  "wf_path p \<Longrightarrow> path_tail (alignment_filename p i) \<noteq> []"
  by (simp add: alignment_filename_split)

lemma wf_alignment_filename: "wf_path p \<Longrightarrow> wf_path (alignment_filename p i)"
  by (simp add: alignment_filename_def wf_path_join wf_path_parent Let_def)

subsection \<open>Properties of the location mapping\<close>

text \<open>
  C13. Location mapping is collision-free on canonical ids (specification 4.4): two
  distinct ids in canonical form are stored at distinct locations under the same
  root, whatever the root.
\<close>

theorem alignment_filename_injective:
  assumes "canonical_id s" and "canonical_id t" and "s \<noteq> t"
  shows "alignment_filename p s \<noteq> alignment_filename p t"
proof
  assume eq: "alignment_filename p s = alignment_filename p t"
  let ?S = "str_split (CHR ''/'') s" and ?T = "str_split (CHR ''/'') t"
  from eq have "path_tail (alignment_filename p s) = path_tail (alignment_filename p t)"
    by simp
  then have "butlast ?S @ [last ?S @ ''.json''] = butlast ?T @ [last ?T @ ''.json'']"
    by (simp add: alignment_filename_canonical assms(1,2))
  then have "butlast ?S = butlast ?T" and "last ?S = last ?T"
    by simp_all
  then have "?S = ?T"
    by (metis append_butlast_last_id str_split_nonempty)
  then have "s = t"
    by (metis join_split)
  with assms(3) show False ..
qed

theorem alignment_filename_injective_witness:
  "alignment_filename (path_of_string ''out'') ''audio/one.mp3''
     \<noteq> alignment_filename (path_of_string ''out'') ''audio/two.mp3''"
  by (rule alignment_filename_injective) (simp_all add: canonical_id_def)

text \<open>
  C14. Distinct ids can collide: pathlib drops empty and \<^verbatim>\<open>.\<close> components, so
  \<^verbatim>\<open>a/b\<close>, \<^verbatim>\<open>a//b\<close> and \<^verbatim>\<open>a/./b\<close> are stored at the same location under every
  root, and a record written under one of them is read back under the others.  The
  specification (4.4) says distinct ids never map to the same location.
\<close>

theorem alignment_filename_collision:
  "alignment_filename p ''a/b'' = alignment_filename p ''a//b''
   \<and> alignment_filename p ''a/b'' = alignment_filename p ''a/./b''"
  by (simp add: alignment_filename_def path_join_def path_of_string_def split_root_def
      path_parent_def path_name_def)

text \<open>
  C15. Ids that are not relative paths leave the root: an absolute id replaces the
  output directory altogether, and the empty id puts the record beside the output
  directory (\<^verbatim>\<open>out.json\<close>) instead of inside it.  The specification (4.4) places
  every record under its root.
\<close>

theorem alignment_filename_outside_root:
  "alignment_filename p ''/etc/x'' = \<lparr>path_root = ''/'', path_tail = [''etc'', ''x.json'']\<rparr>
   \<and> alignment_filename (path_of_string ''out'') '''' = path_of_string ''out.json''"
  by (simp add: alignment_filename_def path_join_def path_of_string_def split_root_def
      path_parent_def path_name_def)





end
