(* ===== verification/Storage.thy ===== *)
theory Storage
  imports Codec Paths
begin

text \<open>
  The file access of \<^verbatim>\<open>write_alignment\<close> and \<^verbatim>\<open>read_alignment\<close>
  (\<^verbatim>\<open>src/timething/utils.py\<close>).  The file system is explicit state: the set of
  directories and a map from file paths to contents.  A file holds the Python value
  \<^verbatim>\<open>json.load\<close> returns for it; for the values \<^verbatim>\<open>alignment_meta\<close> builds
  (string keys; int, float, string, list and dict values) that is the value
  \<^verbatim>\<open>json.dumps\<close> wrote, so the text form is left out.  The roots (a path with an
  empty tail: \<^verbatim>\<open>.\<close>, \<^verbatim>\<open>/\<close>) always exist as directories.
  \<^verbatim>\<open>Path.mkdir(parents=True, exist_ok=True)\<close> and \<^verbatim>\<open>open\<close> are modelled with the
  exceptions the operating system raises: \<^verbatim>\<open>FileExistsError\<close> when the directory
  to create is a file, \<^verbatim>\<open>NotADirectoryError\<close> when a component above it is a file,
  \<^verbatim>\<open>IsADirectoryError\<close> when the file to open is a directory,
  \<^verbatim>\<open>FileNotFoundError\<close> when it does not exist.
\<close>

record fs =
  fs_dirs :: "ppath set"
  fs_files :: "ppath \<Rightarrow> pyval option"

definition is_dir :: "fs \<Rightarrow> ppath \<Rightarrow> bool" where
  "is_dir s p \<longleftrightarrow> path_tail p = [] \<or> p \<in> fs_dirs s"

text \<open>The path and all its ancestors below the root, shortest first.\<close>

definition ancestors :: "ppath \<Rightarrow> ppath list" where
  "ancestors p = map (\<lambda>k. p\<lparr>path_tail := take k (path_tail p)\<rparr>) [1..<Suc (length (path_tail p))]"

text \<open>Some directory component above the path is a regular file.\<close>

definition under_file :: "fs \<Rightarrow> ppath \<Rightarrow> bool" where
  "under_file s p \<longleftrightarrow> (\<exists>q\<in>set (ancestors (path_parent p)). fs_files s q \<noteq> None)"

text \<open>\<^verbatim>\<open>filename.parent.mkdir(parents=True, exist_ok=True)\<close>.\<close>

definition mkdir_parents :: "fs \<Rightarrow> ppath \<Rightarrow> fs result" where
  "mkdir_parents s p =
     (if is_dir s p then Inr s
      else if fs_files s p \<noteq> None then Inl FileExistsError
      else if under_file s p then Inl NotADirectoryError
      else Inr (s\<lparr>fs_dirs := fs_dirs s \<union> set (ancestors p)\<rparr>))"

text \<open>\<^verbatim>\<open>with open(filename, "w") as f: f.write(json.dumps(meta))\<close>.\<close>

definition open_write :: "fs \<Rightarrow> ppath \<Rightarrow> pyval \<Rightarrow> fs result" where
  "open_write s f v =
     (if is_dir s f then Inl IsADirectoryError
      else if under_file s f then Inl NotADirectoryError
      else if \<not> is_dir s (path_parent f) then Inl FileNotFoundError
      else Inr (s\<lparr>fs_files := (fs_files s)(f \<mapsto> v)\<rparr>))"

text \<open>\<^verbatim>\<open>with open(filename, "r") as f: json.load(f)\<close>.\<close>

definition open_read :: "fs \<Rightarrow> ppath \<Rightarrow> pyval result" where
  "open_read s f =
     (case fs_files s f of
        Some v \<Rightarrow> Inr v
      | None \<Rightarrow> if is_dir s f then Inl IsADirectoryError
                else if under_file s f then Inl NotADirectoryError
                else Inl FileNotFoundError)"

text \<open>
  \<^verbatim>\<open>write_alignment\<close>: encode first (nothing is touched when it raises), then create
  the parent directories, then write.  The state after a failed \<^verbatim>\<open>open\<close> keeps the
  directories already created.
\<close>

definition write_alignment :: "fs \<Rightarrow> ppath \<Rightarrow> string \<Rightarrow> alignment \<Rightarrow> unit result \<times> fs" where
  "write_alignment s output_path i a =
     (case alignment_meta a of
        Inl e \<Rightarrow> (Inl e, s)
      | Inr meta \<Rightarrow>
          (let filename = alignment_filename output_path i in
           case mkdir_parents s (path_parent filename) of
             Inl e \<Rightarrow> (Inl e, s)
           | Inr s1 \<Rightarrow>
               (case open_write s1 filename meta of
                  Inl e \<Rightarrow> (Inl e, s1)
                | Inr s2 \<Rightarrow> (Inr (), s2))))"

text \<open>\<^verbatim>\<open>read_alignment\<close>: open and load the file, then rebuild the alignment.\<close>

definition read_alignment :: "fs \<Rightarrow> ppath \<Rightarrow> string \<Rightarrow> alignment result" where
  "read_alignment s alignments_dir alignment_id =
     sbind (open_read s (alignment_filename alignments_dir alignment_id)) alignment_from_dict"


definition empty_fs :: fs where
  "empty_fs = \<lparr>fs_dirs = {}, fs_files = Map.empty\<rparr>"


subsection \<open>Directories and files\<close>







lemma open_write_effect:
  "open_write s f v = Inr s' \<Longrightarrow> fs_files s' = (fs_files s)(f \<mapsto> v) \<and> fs_dirs s' = fs_dirs s"
  by (auto simp: open_write_def split: if_splits)

lemma open_read_written: "fs_files s f = Some v \<Longrightarrow> open_read s f = Inr v"
  by (simp add: open_read_def)



subsection \<open>Writing and reading a record\<close>

text \<open>
  C18. No partial writes when encoding fails (specification 7): if
  \<^verbatim>\<open>alignment_meta\<close> raises, \<^verbatim>\<open>write_alignment\<close> raises the same exception and
  the file system is unchanged: no directory is created, no file written.
\<close>

theorem write_encode_error_no_effect:
  "alignment_meta a = Inl e \<Longrightarrow> write_alignment s p i a = (Inl e, s)"
  by (simp add: write_alignment_def)

theorem write_encode_error_no_effect_witness:
  "alignment_meta (example_alignment\<lparr>n_model_frames := PInt 0\<rparr>) = Inl DegenerateAlignment
   \<and> write_alignment empty_fs (path_of_string ''out'') ''audio/one.mp3''
       (example_alignment\<lparr>n_model_frames := PInt 0\<rparr>) = (Inl DegenerateAlignment, empty_fs)"
proof -
  have e: "alignment_meta (example_alignment\<lparr>n_model_frames := PInt 0\<rparr>) = Inl DegenerateAlignment"
    by (simp add: alignment_meta_def alignments_def segment_meta_def meta_rescale_def
        model_frames_to_seconds_def rescale_params_def example_alignment_def)
  show ?thesis
    using e write_encode_error_no_effect [OF e] by simp
qed

lemma write_alignment_Inr:
  assumes "write_alignment s p i a = (Inr (), s')"
  shows "\<exists>d s1. alignment_meta a = Inr d
    \<and> mkdir_parents s (path_parent (alignment_filename p i)) = Inr s1
    \<and> open_write s1 (alignment_filename p i) d = Inr s'"
  using assms by (auto simp: write_alignment_def Let_def split: sum.splits)




text \<open>
  C2. Persisting round trip (specification 8.1 through 4.4 and 6): when
  \<^verbatim>\<open>write_alignment(output_path, id, alignment)\<close> completes, reading the same id
  under the same root with \<^verbatim>\<open>read_alignment\<close> gives back the loaded view of the
  alignment, whatever the file system held before.
\<close>

theorem write_read_roundtrip:
  assumes "write_alignment s p i a = (Inr (), s')"
  shows "read_alignment s' p i = Inr (loaded_view a)"
proof -
  from write_alignment_Inr [OF assms] obtain d s1 where
    d: "alignment_meta a = Inr d" and w: "open_write s1 (alignment_filename p i) d = Inr s'"
    by blast
  from open_write_effect [OF w] have "fs_files s' (alignment_filename p i) = Some d"
    by simp
  then show ?thesis
    by (simp add: read_alignment_def open_read_written alignment_from_dict_meta [OF d])
qed

theorem write_read_roundtrip_witness:
  "\<exists>s'. write_alignment empty_fs (path_of_string ''out'') ''audio/one.mp3'' example_alignment = (Inr (), s')
     \<and> read_alignment s' (path_of_string ''out'') ''audio/one.mp3'' = Inr (loaded_view example_alignment)"
proof -
  obtain d where d: "alignment_meta example_alignment = Inr d"
    using alignment_meta_Inr [OF rescale_params_example] numeric_bounds_example by blast
  have "\<exists>s'. write_alignment empty_fs (path_of_string ''out'') ''audio/one.mp3'' example_alignment = (Inr (), s')"
    by (simp add: write_alignment_def d mkdir_parents_def open_write_def empty_fs_def is_dir_def
        under_file_def ancestors_def path_of_string_def split_root_def path_join_def path_parent_def path_name_def alignment_filename_def)
  then obtain s' where w: "write_alignment empty_fs (path_of_string ''out'') ''audio/one.mp3'' example_alignment = (Inr (), s')"
    by blast
  show ?thesis
    using w write_read_roundtrip [OF w] by blast
qed










end
