(* ===== verification/Audio.thy ===== *)
theory Audio
  imports Prelude
begin

text \<open>
  The two audio helpers of \<^verbatim>\<open>src/timething/utils.py\<close>.  \<^verbatim>\<open>load_slice\<close> turns a
  time span in seconds into the frame offset and frame count it passes to
  \<^verbatim>\<open>torchaudio.load\<close>; the arithmetic is modelled with exact reals for the floats,
  Python's true division raising \<^verbatim>\<open>ZeroDivisionError\<close>, and \<^verbatim>\<open>int()\<close>
  truncating towards zero.  The two \<^verbatim>\<open>torchaudio\<close> calls are inputs: the file's
  metadata (\<^verbatim>\<open>info\<close>) and its decoded sample count; the final load itself is not
  modelled, its arguments are the result.  \<^verbatim>\<open>load_audio\<close> writes a byte blob to a
  fresh temporary file, decodes it and unlinks it; the temporary directory is a map
  from names to contents, \<^verbatim>\<open>mkstemp\<close>'s fresh name is a parameter, and the decoder
  is any function of the directory, the path and the format (the interface the
  lemmas are stated over).
\<close>

text \<open>The two fields of \<^verbatim>\<open>torchaudio.info(filename)\<close> that \<^verbatim>\<open>load_slice\<close> reads.\<close>

record audio_info =
  sample_rate :: int
  num_frames :: int

text \<open>Python's \<^verbatim>\<open>x / y\<close> on numbers, and \<^verbatim>\<open>int(x)\<close> of a float.\<close>

definition py_truediv :: "real \<Rightarrow> real \<Rightarrow> real result" where
  "py_truediv x y = (if y = 0 then Inl ZeroDivisionError else Inr (x / y))"

definition py_int :: "real \<Rightarrow> int" where
  "py_int x = (if 0 \<le> x then \<lfloor>x\<rfloor> else \<lceil>x\<rceil>)"

text \<open>\<^verbatim>\<open>load_slice\<close>: the \<open>(frame_offset, num_frames)\<close> it loads.\<close>

definition load_slice :: "audio_info \<Rightarrow> nat \<Rightarrow> real \<Rightarrow> real \<Rightarrow> (int \<times> int) result" where
  "load_slice info num_samples start_seconds end_seconds =
     sbind (py_truediv (real num_samples) (of_int (sample_rate info))) (\<lambda>n_seconds.
     sbind (py_truediv n_seconds (of_int (num_frames info))) (\<lambda>seconds_per_frame.
     sbind (py_truediv start_seconds seconds_per_frame) (\<lambda>s.
     sbind (py_truediv end_seconds seconds_per_frame) (\<lambda>e.
     let start = py_int s; end' = py_int e; duration = end' - start in
     Inr (start, duration)))))"

text \<open>
  \<^verbatim>\<open>load_audio(content, format)\<close>: \<^verbatim>\<open>mkstemp(suffix=f".{format}")\<close> names the
  file \<open>stem.format\<close>, the blob is written, \<^verbatim>\<open>torchaudio.load\<close> decodes it, and
  \<^verbatim>\<open>os.unlink\<close> removes it only after a successful decode.
\<close>

definition load_audio ::
  "(string \<Rightarrow> 'c option) \<Rightarrow> string \<Rightarrow> ((string \<Rightarrow> 'c option) \<Rightarrow> string \<Rightarrow> string \<Rightarrow> 'a result)
     \<Rightarrow> 'c \<Rightarrow> string \<Rightarrow> 'a result \<times> (string \<Rightarrow> 'c option)" where
  "load_audio files stem load content format =
     (let path = stem @ ''.'' @ format;
          files1 = files(path \<mapsto> content) in
      case load files1 path format of
        Inl e \<Rightarrow> (Inl e, files1)
      | Inr r \<Rightarrow> (Inr r, files1(path := None)))"

lemma py_truediv_Inr [simp]: "y \<noteq> 0 \<Longrightarrow> py_truediv x y = Inr (x / y)"
  by (simp add: py_truediv_def)

lemma py_truediv_zero [simp]: "py_truediv x 0 = Inl ZeroDivisionError"
  by (simp add: py_truediv_def)





text \<open>
  C24. Degenerate audio raises: a zero sample rate, a zero frame count or an empty
  recording makes \<^verbatim>\<open>load_slice\<close> raise \<^verbatim>\<open>ZeroDivisionError\<close> before anything is
  loaded.
\<close>

theorem load_slice_zero_division:
  assumes "sample_rate info = 0 \<or> num_frames info = 0 \<or> num_samples = 0"
  shows "load_slice info num_samples s e = Inl ZeroDivisionError"
  using assms by (auto simp: load_slice_def py_truediv_def)

theorem load_slice_zero_division_witness:
  "load_slice \<lparr>sample_rate = 16000, num_frames = 0\<rparr> 32000 0 1 = Inl ZeroDivisionError"
  by (rule load_slice_zero_division) simp


text \<open>
  C26. A successful \<^verbatim>\<open>load_audio\<close> leaves no trace: the decoder sees the blob
  under the fresh temporary name, its result is returned, and the temporary directory
  is as before.
\<close>

theorem load_audio_success:
  assumes "files (stem @ ''.'' @ format) = None"
    and "load (files(stem @ ''.'' @ format \<mapsto> content)) (stem @ ''.'' @ format) format = Inr r"
  shows "load_audio files stem load content format = (Inr r, files)"
  using assms by (simp add: load_audio_def fun_upd_idem)

theorem load_audio_success_witness:
  "load_audio Map.empty ''tmpab12'' (\<lambda>fs p f. case fs p of Some c \<Rightarrow> Inr (c, f) | None \<Rightarrow> Inl FileNotFoundError)
     ''RIFF'' ''wav'' = (Inr (''RIFF'', ''wav''), Map.empty)"
  by (rule load_audio_success) simp_all

text \<open>
  C27. A failed decode leaks the temporary file: when \<^verbatim>\<open>torchaudio.load\<close> raises,
  \<^verbatim>\<open>load_audio\<close> propagates the exception without reaching \<^verbatim>\<open>os.unlink\<close>, and
  the blob stays in the temporary directory.
\<close>

theorem load_audio_failure_leaks:
  assumes "load (files(stem @ ''.'' @ format \<mapsto> content)) (stem @ ''.'' @ format) format = Inl e"
  shows "load_audio files stem load content format = (Inl e, files(stem @ ''.'' @ format \<mapsto> content))"
  using assms by (simp add: load_audio_def)

theorem load_audio_failure_leaks_witness:
  "load_audio Map.empty ''tmpab12'' (\<lambda>fs p f. if f = ''wav'' then Inr () else Inl TypeError)
     ''garbage'' ''xyz'' = (Inl TypeError, [''tmpab12.xyz'' \<mapsto> ''garbage''])"
  using load_audio_failure_leaks [where files = Map.empty and stem = "''tmpab12''"
      and format = "''xyz''" and content = "''garbage''" and e = TypeError
      and load = "\<lambda>fs p f. if f = ''wav'' then Inr () else Inl TypeError"]
  by simp

end
