(* ===== verification/Config.thy ===== *)
theory Config
  imports PyValue
begin

text \<open>
  \<^verbatim>\<open>load_config\<close> of \<^verbatim>\<open>src/timething/utils.py\<close>: the model registry
  \<^verbatim>\<open>models.yaml\<close> is read with \<^verbatim>\<open>yaml.safe_load\<close> (not modelled: the loaded value
  is the input \<open>cfg\<close>) and the entry of the requested model is copied into an
  \<^verbatim>\<open>align.Config\<close>.  The keyword arguments are evaluated in the order written, each
  \<^verbatim>\<open>cfg[model][key]\<close> raising \<^verbatim>\<open>KeyError\<close> for a missing model or key.
  \<^verbatim>\<open>align.CACHE_DIR_DEFAULT\<close> lives in \<^verbatim>\<open>align.py\<close>, outside the sources, so it is a
  parameter.  Field names follow \<^verbatim>\<open>align.Config\<close>, except \<open>model_sampling_rate\<close>,
  renamed to keep it apart from the alignment's \<open>sampling_rate\<close>.
\<close>

record config =
  hugging_model :: pyval
  hugging_pin :: pyval
  model_sampling_rate :: pyval
  language :: pyval
  k_shingles :: pyval
  local_files_only :: pyval
  cache_dir :: pyval

text \<open>\<^verbatim>\<open>cfg[model][key]\<close>.\<close>

definition model_entry :: "pyval \<Rightarrow> string \<Rightarrow> string \<Rightarrow> pyval result" where
  "model_entry cfg model key = sbind (py_getitem cfg model) (\<lambda>m. py_getitem m key)"

definition load_config ::
  "pyval \<Rightarrow> string \<Rightarrow> pyval \<Rightarrow> pyval \<Rightarrow> pyval \<Rightarrow> pyval \<Rightarrow> config result" where
  "load_config cfg model k_shingles' local_files_only' cache_dir' cache_dir_default =
     sbind (model_entry cfg model ''model'') (\<lambda>hm.
     sbind (model_entry cfg model ''pin'') (\<lambda>pin.
     sbind (model_entry cfg model ''sampling_rate'') (\<lambda>sr.
     sbind (model_entry cfg model ''language'') (\<lambda>lang.
     Inr \<lparr>hugging_model = hm, hugging_pin = pin, model_sampling_rate = sr, language = lang,
          k_shingles = k_shingles', local_files_only = local_files_only',
          cache_dir = (if py_truthy cache_dir' then cache_dir' else cache_dir_default)\<rparr>))))"

text \<open>A registry with one model entry.\<close>

definition example_registry :: pyval where
  "example_registry = PDict [(''english'', PDict [(''model'', PStr ''wav2vec2''),
     (''pin'', PStr ''abc123''), (''sampling_rate'', PInt 16000), (''language'', PStr ''en'')])]"

text \<open>
  C28. A registered model is loaded field by field: when the registry has an entry for
  the model with the four keys, \<^verbatim>\<open>load_config\<close> returns a configuration holding
  exactly those values and the caller's arguments, with the default cache directory
  exactly when the given one is falsy (\<^verbatim>\<open>None\<close> or empty).
\<close>

theorem load_config_entry:
  assumes "py_getitem cfg model = Inr (PDict kvs)"
    and "map_of kvs ''model'' = Some hm" and "map_of kvs ''pin'' = Some pin"
    and "map_of kvs ''sampling_rate'' = Some sr" and "map_of kvs ''language'' = Some lang"
  shows "load_config cfg model k l c dflt =
    Inr \<lparr>hugging_model = hm, hugging_pin = pin, model_sampling_rate = sr, language = lang,
         k_shingles = k, local_files_only = l, cache_dir = (if py_truthy c then c else dflt)\<rparr>"
  using assms by (simp add: load_config_def model_entry_def)

theorem load_config_entry_witness:
  "load_config example_registry ''english'' (PInt 5) (PBool False) PNone (PStr ''/cache'') =
    Inr \<lparr>hugging_model = PStr ''wav2vec2'', hugging_pin = PStr ''abc123'',
         model_sampling_rate = PInt 16000, language = PStr ''en'', k_shingles = PInt 5,
         local_files_only = PBool False, cache_dir = PStr ''/cache''\<rparr>"
  using load_config_entry [of example_registry "''english''"] by (simp add: example_registry_def)

text \<open>
  C29. An unknown model is reported by name: if the registry has no entry for it,
  \<^verbatim>\<open>load_config\<close> raises \<^verbatim>\<open>KeyError(model)\<close> and returns no configuration.
\<close>

theorem load_config_unknown_model:
  assumes "map_of kvs model = None"
  shows "load_config (PDict kvs) model k l c dflt = Inl (KeyError model)"
  using assms by (simp add: load_config_def model_entry_def)

theorem load_config_unknown_model_witness:
  "load_config example_registry ''german'' (PInt 5) (PBool False) PNone (PStr ''/cache'')
     = Inl (KeyError ''german'')"
  unfolding example_registry_def by (rule load_config_unknown_model) simp

end
