(* ===== verification/Device.thy ===== *)
theory Device
  imports Main
begin

text \<open>
  Device selection in \<^verbatim>\<open>src/timething/utils.py\<close> (\<^verbatim>\<open>best_device\<close>,
  \<^verbatim>\<open>gpu_mps_available\<close>, \<^verbatim>\<open>cuda_is_built\<close>, \<^verbatim>\<open>gpu_cuda_available\<close>): pure
  functions of what \<^verbatim>\<open>torch\<close> reports, which is the record \<open>torch_backends\<close>
  (\<^verbatim>\<open>torch.cuda.is_available()\<close>, whether \<^verbatim>\<open>torch.cuda\<close> has \<^verbatim>\<open>is_built\<close>
  and what it returns, and the two MPS probes).  The devices are the kinds
  \<^verbatim>\<open>torch.device\<close> is built with here and the MPS backend the module probes.
\<close>

record torch_backends =
  cuda_is_available :: bool
  cuda_has_is_built :: bool
  cuda_built :: bool
  mps_is_available :: bool
  mps_is_built :: bool

datatype device = Cuda | Mps | Cpu

definition gpu_mps_available :: "torch_backends \<Rightarrow> bool" where
  "gpu_mps_available t \<longleftrightarrow> mps_is_available t \<and> mps_is_built t"

text \<open>\<^verbatim>\<open>hasattr(torch.cuda, "is_built")\<close>, falling back to \<^verbatim>\<open>True\<close>.\<close>

definition cuda_is_built :: "torch_backends \<Rightarrow> bool" where
  "cuda_is_built t = (if cuda_has_is_built t then cuda_built t else True)"

definition gpu_cuda_available :: "torch_backends \<Rightarrow> bool" where
  "gpu_cuda_available t \<longleftrightarrow> cuda_is_available t \<and> cuda_is_built t"

definition best_device :: "torch_backends \<Rightarrow> device" where
  "best_device t = (if gpu_cuda_available t then Cuda else Cpu)"

text \<open>
  C30. Device choice: \<^verbatim>\<open>best_device\<close> picks CUDA exactly when CUDA is available and,
  where \<^verbatim>\<open>torch.cuda.is_built\<close> exists, built; otherwise the CPU.  It never picks the
  MPS backend, not even when \<^verbatim>\<open>gpu_mps_available\<close> holds.
\<close>

theorem best_device_choice:
  "(best_device t = Cuda \<longleftrightarrow> cuda_is_available t \<and> (cuda_has_is_built t \<longrightarrow> cuda_built t))
   \<and> (best_device t \<noteq> Cuda \<longrightarrow> best_device t = Cpu)
   \<and> best_device t \<noteq> Mps"
  by (simp add: best_device_def gpu_cuda_available_def cuda_is_built_def)

theorem best_device_choice_witness:
  "gpu_mps_available \<lparr>cuda_is_available = False, cuda_has_is_built = True, cuda_built = False,
      mps_is_available = True, mps_is_built = True\<rparr>
   \<and> best_device \<lparr>cuda_is_available = False, cuda_has_is_built = True, cuda_built = False,
      mps_is_available = True, mps_is_built = True\<rparr> = Cpu"
  using best_device_choice [of "\<lparr>cuda_is_available = False, cuda_has_is_built = True,
      cuda_built = False, mps_is_available = True, mps_is_built = True\<rparr>"]
  by (simp add: gpu_mps_available_def)

end
