(* ===== verification/Spec2Isabelle.thy ===== *)
theory Spec2Isabelle
  imports Storage Audio Config Device
begin

text \<open>
  Verification development of \<^verbatim>\<open>src/timething/utils.py\<close> of timething, the helper
  module around the acoustic aligner: it persists alignments as JSON records, loads
  model configurations and audio, and picks the compute device.

  \<^bold>\<open>Parts and how they interact.\<close>  \<^verbatim>\<open>write_alignment\<close> encodes an
  \<^verbatim>\<open>align.Alignment\<close> with \<^verbatim>\<open>alignment_meta\<close>, which rescales segment bounds from
  model frames to seconds with \<^verbatim>\<open>Alignment.model_frames_to_seconds\<close>, maps the
  identifier to a file with \<^verbatim>\<open>alignment_filename\<close>, creates the parent directories
  and writes the JSON; \<^verbatim>\<open>read_alignment\<close> maps the identifier the same way, loads
  the dict and rebuilds the alignment, rescaling back with
  \<^verbatim>\<open>Alignment.seconds_to_model_frames\<close>.  \<^verbatim>\<open>load_config\<close>, \<^verbatim>\<open>load_slice\<close>,
  \<^verbatim>\<open>load_audio\<close> and the device functions are independent of the persistence path.

  \<^bold>\<open>Theories.\<close>
  \<^item> \<open>Prelude\<close>: Python exceptions as values (\<open>py_error\<close>, \<open>'a result\<close> = \<open>py_error + 'a\<close>),
    statement sequencing \<open>sbind\<close> and list comprehensions \<open>map_res\<close>, with the
    lemmas on exception propagation every component proof uses.
  \<^item> \<open>PyValue\<close>: dynamically typed Python values \<open>pyval\<close> (what \<^verbatim>\<open>json.load\<close> returns
    and what dataclass fields hold), subscripting \<open>py_getitem\<close> with \<^verbatim>\<open>KeyError\<close> and
    \<^verbatim>\<open>TypeError\<close>, iteration, numeric reading and truthiness.
  \<^item> \<open>Alignment\<close>: the records \<open>segment\<close> and \<open>alignment\<close> and the two rescalings.  They
    belong to \<^verbatim>\<open>align.py\<close>, not under \<^verbatim>\<open>src/\<close>, and are modelled from the
    specification (including its \<^verbatim>\<open>DegenerateAlignment\<close> check for zero metadata).
  \<^item> \<open>Codec\<close>: \<^verbatim>\<open>alignment_meta\<close> (\<open>alignment_meta\<close>, \<open>alignments\<close>, \<open>segment_meta\<close>,
    \<open>meta_rescale\<close>) and the reconstruction half of \<^verbatim>\<open>read_alignment\<close>
    (\<open>alignment_from_dict\<close>, \<open>segments_from\<close>, \<open>dict_to_segment\<close>, \<open>read_rescale\<close>), each
    evaluating its dict literal, comprehensions and keyword arguments in Python's order.
    Lemmas: encode/decode round trip on the loaded view (placeholder arrays, float
    bounds), the error behaviour on degenerate metadata and missing keys, the order of
    the four segment lists, totality of encoding, the specification's example record.
  \<^item> \<open>Paths\<close>: \<^verbatim>\<open>pathlib\<close> paths as a root and a tail of parts (\<open>ppath\<close>), parsing,
    \<open>/\<close>, \<open>parent\<close>, \<open>name\<close>, and \<open>alignment_filename\<close>.  Lemmas: the string/path round
    trip, injectivity of the mapping on canonical identifiers, the collision of
    non-canonical ones and the escape of absolute identifiers from the root.
  \<^item> \<open>Storage\<close>: the file system as a state record \<open>fs\<close> (directories, files holding
    the value \<^verbatim>\<open>json.load\<close> returns), \<^verbatim>\<open>mkdir(parents=True, exist_ok=True)\<close>,
    \<^verbatim>\<open>open\<close> for writing and reading with their OS errors, and \<open>write_alignment\<close> /
    \<open>read_alignment\<close> composed as the code composes them, returning the new state.
    Lemmas: write-then-read round trip, well-formedness of the file system preserved,
    other records untouched, no effect when encoding fails, success conditions,
    \<^verbatim>\<open>FileNotFoundError\<close> for an absent record.
  \<^item> \<open>Audio\<close>: \<open>load_slice\<close> (the frame offset and count handed to
    \<^verbatim>\<open>torchaudio.load\<close>, with true division and \<^verbatim>\<open>int()\<close>) and \<open>load_audio\<close>
    (temporary file written, decoded, unlinked), the decoder a parameter over the
    temporary directory.  Lemmas: slice bounds, \<^verbatim>\<open>ZeroDivisionError\<close>, the unchecked
    reversed span, clean-up on success and the leak on a decoder error.
  \<^item> \<open>Config\<close>: \<open>load_config\<close> over the registry value; lemmas for a registered and an
    unknown model.
  \<^item> \<open>Device\<close>: \<open>best_device\<close> and the capability probes over a record of what
    \<^verbatim>\<open>torch\<close> reports; the choice lemma.
  \<^item> This theory: properties spanning Paths, Codec and Storage (an alias identifier
    overwrites another identifier's record).

  \<^bold>\<open>Modelling choices.\<close>  Python floats are exact reals: the theorems are about the
  arithmetic the code writes, not IEEE rounding, so the round trips are exact here and
  hold up to rounding in the program.  Integers are unbounded \<open>int\<close>, as in Python.
  No loop of the module can run forever (all iterate over finite lists), so every
  definition is total and no fuel is needed.  The file system holds parsed JSON values
  rather than text: for the str/int/float/list/dict values \<open>alignment_meta\<close> builds,
  \<^verbatim>\<open>json.load\<close> after \<^verbatim>\<open>json.dump\<close> gives the value back.

  \<^bold>\<open>Not modelled.\<close>  JSON text and character encodings (the read uses the locale
  encoding and the write UTF-8, a finding recorded in the manifest), YAML parsing,
  \<^verbatim>\<open>torchaudio\<close> decoding and the aligner itself: library code the module only
  calls, whose results are the inputs of the modelled functions.
\<close>





end
